theory Spec2Isabelle
  imports Complex_Main
begin

section \<open>JavaScript values\<close>

text \<open>
  The settings object, the token response and the authorize response are flat JSON
  objects. A JSON value is one of the scalars below; a missing property (JavaScript's
  \<open>undefined\<close>) is \<open>None\<close> of the lookup. \<open>JSON.stringify\<close> drops a property
  whose value is \<open>undefined\<close>, so storing \<open>None\<close> under a key and deleting the key are
  the same persisted document.
\<close>

datatype jsval = JNull | JBool bool | JNum real | JStr string

type_synonym obj = "string \<rightharpoonup> jsval"

type_synonym settings = obj

text \<open>The truth value of \<open>if (v)\<close> and \<open>!v\<close>.\<close>

fun truthy :: "jsval option \<Rightarrow> bool" where
  "truthy None = False"
| "truthy (Some JNull) = False"
| "truthy (Some (JBool b)) = b"
| "truthy (Some (JNum x)) = (x \<noteq> 0)"
| "truthy (Some (JStr s)) = (s \<noteq> [])"

text \<open>
  The variable \<open>temp\<close> of the sensor callback holds the number 0 or the string made by
  \<open>toFixed(1)\<close>; in \<open>temp>12\<close>, \<open>temp<11\<close> and \<open>temp<5\<close> it is converted to a number,
  which is \<open>NaN\<close> when the capability value was not numeric. Every comparison with
  \<open>NaN\<close> is false.
\<close>

datatype jsnum = NaN | Num real

fun js_gt :: "jsnum \<Rightarrow> real \<Rightarrow> bool" where
  "js_gt NaN c = False"
| "js_gt (Num x) c = (c < x)"

fun js_lt :: "jsnum \<Rightarrow> real \<Rightarrow> bool" where
  "js_lt NaN c = False"
| "js_lt (Num x) c = (x < c)"

section \<open>The provider's data and the run's observable events\<close>

text \<open>
  A remote sensor as the callback sees it after its capability loop (lines 202-208):
  its name, the numeric value of \<open>temp\<close> and the occupancy flag.
\<close>

record remoteSensor =
  sname :: string
  stemp :: jsnum
  occupancy :: bool

record thermostat =
  tname :: string
  connected :: bool
  remoteSensors :: "remoteSensor list"

text \<open>The payload of the polling endpoint, in the shape the provider documents:
  \<open>data.status.code\<close> (a number), \<open>data.status.message\<close> and \<open>data.thermostatList\<close>.\<close>

record poll =
  status_code :: int
  status_message :: string
  thermostatList :: "thermostat list"

text \<open>An axios call resolves with the response data, or rejects with an error that may
  carry a response (\<open>error.response\<close>).\<close>

datatype 'a http = Resolved 'a | Rejected "'a option"

text \<open>The body of the token POST (lines 125-127): the grant type and the value put
  after \<open>code=\<close>.\<close>

datatype grant = RefreshToken "jsval option" | EcobeePin "jsval option"

datatype request =
    AuthorizeGet
  | TokenPost grant
  | ThermostatGet "jsval option" "jsval option"

text \<open>The two mails of the program: line 111 (fixed subject and text) and line 236
  (subject and text carry \<open>temp\<close>).\<close>

datatype mail = AppAuthRequired | SunroomTemperature jsnum

datatype console =
    Starting
  | ErrorReadingSettings
  | UserActionRequired "jsval option"
  | UpdatingAccessToken
  | LoadingFailed
  | MailError
  | MailSentOk

datatype logline =
    LogTokenError
  | LogApiError string bool
  | LogDate
  | LogNotConnected
  | LogThermostat string
  | LogSensor string jsnum bool
  | LogTurningOff jsnum
  | LogFailedOff jsnum
  | LogTurningOn jsnum
  | LogFailedOn jsnum
  | LogSunroomProblem

datatype event =
    Console console
  | Journal logline
  | Saved settings
  | Request request
  | MailSubmitted mail
  | DeviceToggle string string

datatype relay = PowerOn | PowerOff

text \<open>What the actuator cloud does with a command: a call of \<open>deviceToggle\<close> throws
  (login, device lookup or the command failed), or the command answers with the number
  \<open>system.set_relay_state.err_code\<close>.\<close>

datatype toggle_outcome = ToggleThrows | ToggleResponse int

text \<open>
  Everything outside the program that a run reads: the settings file (\<open>None\<close> when
  reading or parsing it throws; a file that parses holds an object), the answers of the
  three endpoints of the sensor provider, whether the mail transport reports an error for
  a mail, and the actuator cloud's answer to a command for a device.
\<close>

record env =
  settings_file :: "settings option"
  authorizeGet :: "obj http"
  tokenPost :: "grant \<Rightarrow> obj http"
  thermostatGet :: "poll http"
  smtp_error :: "mail \<Rightarrow> bool"
  tplink :: "string \<Rightarrow> relay \<Rightarrow> toggle_outcome"

datatype exn = TypeError | RequestFailed | MailRejected

datatype outcome = Exit nat | Uncaught exn

section \<open>The helpers (lines 34-84)\<close>

text \<open>\<open>logWrite\<close> appends a line to the log file and prints it: the event
  \<open>Journal\<close>. \<open>settingsSave\<close> overwrites the settings file with the whole document:
  the event \<open>Saved\<close>; called without an argument it writes the empty object.\<close>

text \<open>\<open>mailSend\<close>: the message is handed to the transport; when the transport calls
  back, an error is printed and the promise rejected, and the lines after the \<open>if\<close>
  run in both cases. The result is whether the promise resolved.\<close>

definition mailSend_callback :: "env \<Rightarrow> mail \<Rightarrow> event list \<times> bool" where
  "mailSend_callback env m =
     (if smtp_error env m then ([Console MailError, Console MailSentOk], False)
      else ([Console MailSentOk], True))"

definition mailSend :: "env \<Rightarrow> mail \<Rightarrow> event list \<times> bool" where
  "mailSend env m =
     (case mailSend_callback env m of (evs, resolved) \<Rightarrow> (MailSubmitted m # evs, resolved))"

text \<open>\<open>deviceToggle\<close>: \<open>Inl\<close> when a call inside throws, otherwise
  \<open>err_code == 0\<close>.\<close>

definition deviceToggle :: "env \<Rightarrow> string \<Rightarrow> string \<Rightarrow> unit + bool" where
  "deviceToggle env name powerMode =
     (case tplink env name (if powerMode = ''powerOn'' then PowerOn else PowerOff) of
        ToggleThrows \<Rightarrow> Inl ()
      | ToggleResponse err_code \<Rightarrow> Inr (err_code = 0))"

section \<open>The run up to the sensor loop (lines 86-185)\<close>

definition loadSettings :: "env \<Rightarrow> event list \<times> settings" where
  "loadSettings env =
     (case settings_file env of
        None \<Rightarrow> ([Console ErrorReadingSettings, Saved Map.empty], Map.empty)
      | Some s \<Rightarrow> ([], s))"

text \<open>Lines 98-115: adding the app with the PIN method.\<close>

definition addApp :: "env \<Rightarrow> settings \<Rightarrow> event list \<times> (outcome + settings)" where
  "addApp env settings =
     (if \<not> truthy (settings ''authCode'') then
        (case authorizeGet env of
           Rejected r \<Rightarrow> ([Request AuthorizeGet], Inl (Uncaught RequestFailed))
         | Resolved data \<Rightarrow>
             (let pin = data ''ecobeePin'';
                  settings' = settings(''authCode'' := data ''code'')
              in case mailSend env AppAuthRequired of
                   (mevs, resolved) \<Rightarrow>
                     ([Request AuthorizeGet, Console (UserActionRequired pin), Saved settings'] @ mevs,
                      Inl (if resolved then Exit 1 else Uncaught MailRejected))))
      else ([], Inr settings))"

text \<open>Lines 125-127: the body of the token POST.\<close>

definition tokenBody :: "settings \<Rightarrow> grant" where
  "tokenBody settings =
     (if truthy (settings ''refresh_token'')
      then RefreshToken (settings ''refresh_token'')
      else EcobeePin (settings ''authCode''))"

text \<open>Lines 121-145: the token POST and its answer.\<close>

definition updateToken :: "env \<Rightarrow> settings \<Rightarrow> event list \<times> (outcome + settings)" where
  "updateToken env settings =
     (if \<not> truthy (settings ''access_token'') then
        (let body = tokenBody settings;
             sent = [Console UpdatingAccessToken, Request (TokenPost body)]
         in case tokenPost env body of
              Rejected r \<Rightarrow> (sent, Inl (Uncaught RequestFailed))
            | Resolved data \<Rightarrow>
                if truthy (data ''error'') then
                  (let settings' =
                         (if data ''error'' = Some (JStr ''authorization_expired'')
                          then settings(''authCode'' := None)
                          else settings(''access_token'' := None))
                   in (sent @ [Journal LogTokenError, Saved settings'], Inl (Exit 1)))
                else
                  (let settings' = settings ++ data
                   in (sent @ [Saved settings'], Inr settings')))
      else ([], Inr settings))"

text \<open>Lines 149-185: reading the sensors and the embedded status code.\<close>

definition readSensors ::
  "env \<Rightarrow> settings \<Rightarrow> event list \<times> (outcome + settings \<times> thermostat list)" where
  "readSensors env settings =
     (let req = Request (ThermostatGet (settings ''token_type'') (settings ''access_token''))
      in case (case thermostatGet env of
                 Resolved r \<Rightarrow> ([req], Some r)
               | Rejected r \<Rightarrow> ([req, Console LoadingFailed], r)) of
           (evs, None) \<Rightarrow> (evs, Inl (Uncaught TypeError))
         | (evs, Some data) \<Rightarrow>
             (let statusCode = status_code data in
              if statusCode \<noteq> 0 then
                (if statusCode = 14
                 then (evs @ [Journal (LogApiError (status_message data) True),
                              Saved (settings(''access_token'' := None))],
                       Inl (Exit 1))
                 else (evs @ [Journal (LogApiError (status_message data) False)], Inl (Exit 1)))
              else (evs, Inr (settings, thermostatList data))))"

text \<open>A stage that halted ends the run; otherwise the next stage runs on its result.\<close>

definition andThen ::
  "event list \<times> (outcome + 'a) \<Rightarrow> ('a \<Rightarrow> event list \<times> (outcome + 'b)) \<Rightarrow>
   event list \<times> (outcome + 'b)" where
  "andThen r f =
     (case r of
        (evs, Inl halt) \<Rightarrow> (evs, Inl halt)
      | (evs, Inr x) \<Rightarrow> (case f x of (evs', y) \<Rightarrow> (evs @ evs', y)))"

definition main :: "env \<Rightarrow> event list \<times> (outcome + settings \<times> thermostat list)" where
  "main env =
     (case loadSettings env of
        (evs, settings) \<Rightarrow>
          andThen (andThen (andThen (Console Starting # evs, Inr settings) (addApp env))
                     (updateToken env))
            (readSensors env))"

section \<open>The sensor loop (lines 188-242)\<close>

text \<open>
  The callback of \<open>remoteSensors.forEach\<close> is an async function: \<open>forEach\<close> runs each
  callback up to its first \<open>await\<close> and goes on to the next sensor; the rest of a
  callback runs when the awaited call has settled. A task is a callback suspended at an
  \<open>await\<close>: of \<open>deviceToggle\<close> in the branch of line 215 or of line 225, or of
  \<open>mailSend\<close> in line 236. All callbacks share the one \<open>settings\<close> object.
  Nothing catches a rejected \<open>await\<close>: the callback ends there. What the runtime
  then does with the process is not the program's, and a schedule may end at any point.
\<close>

datatype task = AwaitOff jsnum | AwaitOn jsnum | AwaitMail mail

fun pending :: "task option \<Rightarrow> task list" where
  "pending None = []"
| "pending (Some t) = [t]"

text \<open>Lines 233-236, up to the \<open>await\<close>.\<close>

definition saveAndAlert :: "settings \<Rightarrow> jsnum \<Rightarrow> event list \<times> task option" where
  "saveAndAlert settings temp =
     (if js_lt temp 5
      then ([Saved settings, MailSubmitted (SunroomTemperature temp)],
            Some (AwaitMail (SunroomTemperature temp)))
      else ([Saved settings], None))"

text \<open>Lines 209-236, from the call of the callback to its first \<open>await\<close> or its end.\<close>

definition sensorStart :: "settings \<Rightarrow> remoteSensor \<Rightarrow> event list \<times> task option" where
  "sensorStart settings s =
     (let log = Journal (LogSensor (sname s) (stemp s) (occupancy s)) in
      if sname s = ''Sunroom'' then
        if js_gt (stemp s) 12 \<and> settings ''device_SunroomHeater'' \<noteq> Some (JStr ''powerOff'')
        then ([log, DeviceToggle ''SunroomHeater'' ''powerOff''], Some (AwaitOff (stemp s)))
        else if js_lt (stemp s) 11 \<and> settings ''device_SunroomHeater'' \<noteq> Some (JStr ''powerOn'')
        then ([log, DeviceToggle ''SunroomHeater'' ''powerOn''], Some (AwaitOn (stemp s)))
        else (case saveAndAlert settings (stemp s) of (evs, t) \<Rightarrow> (log # evs, t))
      else ([log], None))"

text \<open>A suspended callback goes on, with the settings as they are then: lines 216-236
  after \<open>deviceToggle\<close> settled, line 237 after \<open>mailSend\<close> settled. A rejected
  \<open>await\<close> ends the callback.\<close>

fun resume :: "env \<Rightarrow> settings \<Rightarrow> task \<Rightarrow> settings \<times> event list \<times> task option" where
  "resume env settings (AwaitOff temp) =
     (case deviceToggle env ''SunroomHeater'' ''powerOff'' of
        Inl u \<Rightarrow> (settings, [], None)
      | Inr result \<Rightarrow>
          (let settings' = (if result then settings(''device_SunroomHeater'' \<mapsto> JStr ''powerOff'')
                            else settings);
               log = Journal (if result then LogTurningOff temp else LogFailedOff temp)
           in case saveAndAlert settings' temp of (evs, t) \<Rightarrow> (settings', log # evs, t)))"
| "resume env settings (AwaitOn temp) =
     (case deviceToggle env ''SunroomHeater'' ''powerOn'' of
        Inl u \<Rightarrow> (settings, [], None)
      | Inr result \<Rightarrow>
          (let settings' = (if result then settings(''device_SunroomHeater'' \<mapsto> JStr ''powerOn'')
                            else settings);
               log = Journal (if result then LogTurningOn temp else LogFailedOn temp)
           in case saveAndAlert settings' temp of (evs, t) \<Rightarrow> (settings', log # evs, t)))"
| "resume env settings (AwaitMail m) =
     (case mailSend_callback env m of
        (evs, resolved) \<Rightarrow>
          (settings, evs @ (if resolved then [Journal LogSunroomProblem] else []), None))"

text \<open>The synchronous pass of the two \<open>forEach\<close> loops: the settings are not changed in
  it, and the suspended callbacks are collected in order.\<close>

fun startSensors :: "settings \<Rightarrow> remoteSensor list \<Rightarrow> event list \<times> task list" where
  "startSensors settings [] = ([], [])"
| "startSensors settings (s # ss) =
     (case sensorStart settings s of
        (evs, t) \<Rightarrow>
          (case startSensors settings ss of (evs', ts) \<Rightarrow> (evs @ evs', pending t @ ts)))"

definition thermostatStart :: "settings \<Rightarrow> thermostat \<Rightarrow> event list \<times> task list" where
  "thermostatStart settings th =
     (if \<not> connected th then ([Journal LogNotConnected], [])
      else (case startSensors settings (remoteSensors th) of
              (evs, ts) \<Rightarrow> (Journal (LogThermostat (tname th)) # evs, ts)))"

fun startThermostats :: "settings \<Rightarrow> thermostat list \<Rightarrow> event list \<times> task list" where
  "startThermostats settings [] = ([], [])"
| "startThermostats settings (th # ths) =
     (case thermostatStart settings th of
        (evs, ts) \<Rightarrow>
          (case startThermostats settings ths of (evs', ts') \<Rightarrow> (evs @ evs', ts @ ts')))"

text \<open>
  The suspended callbacks go on one at a time, in the order in which their awaited calls
  settle. That order is the network's: it is given as a schedule, whose next number
  picks one of the tasks still suspended. The result holds the settings, the events and
  the tasks that are still suspended when the schedule ends.
\<close>

fun runTasks ::
  "env \<Rightarrow> nat list \<Rightarrow> task list \<Rightarrow> settings \<Rightarrow> settings \<times> event list \<times> task list" where
  "runTasks env [] tasks settings = (settings, [], tasks)"
| "runTasks env (k # sched) tasks settings =
     (if tasks = [] then (settings, [], [])
      else
        (let i = k mod length tasks in
         case resume env settings (tasks ! i) of
           (settings', evs, next) \<Rightarrow>
             (case runTasks env sched (take i tasks @ pending next @ drop (Suc i) tasks) settings' of
                (settings'', evs', left) \<Rightarrow> (settings'', evs @ evs', left))))"

definition sensorLoop ::
  "env \<Rightarrow> nat list \<Rightarrow> settings \<Rightarrow> thermostat list \<Rightarrow> settings \<times> event list \<times> task list" where
  "sensorLoop env sched settings thermostats =
     (case startThermostats settings thermostats of
        (evs, tasks) \<Rightarrow>
          (case runTasks env sched tasks settings of
             (settings', evs', left) \<Rightarrow> (settings', Journal LogDate # evs @ evs', left)))"

text \<open>One callback run alone to its end: it suspends at most twice.\<close>

definition sensorCallback :: "env \<Rightarrow> settings \<Rightarrow> remoteSensor \<Rightarrow> settings \<times> event list" where
  "sensorCallback env settings s =
     (case sensorStart settings s of
        (evs, t) \<Rightarrow>
          (case runTasks env [0, 0] (pending t) settings of
             (settings', evs', left) \<Rightarrow> (settings', evs @ evs')))"

text \<open>The whole run: the events, and how the main function ended (\<open>None\<close>: it returned
  after the loops, leaving the suspended callbacks to the schedule).\<close>

definition run :: "env \<Rightarrow> nat list \<Rightarrow> event list \<times> outcome option" where
  "run env sched =
     (case main env of
        (evs, Inl halt) \<Rightarrow> (evs, Some halt)
      | (evs, Inr (settings, thermostats)) \<Rightarrow>
          (case sensorLoop env sched settings thermostats of
             (settings', evs', left) \<Rightarrow> (evs @ evs', None)))"

section \<open>Observations on a run\<close>

text \<open>The documents written to the settings file, in order.\<close>

fun saved :: "event list \<Rightarrow> settings list" where
  "saved [] = []"
| "saved (Saved s # evs) = s # saved evs"
| "saved (e # evs) = saved evs"

text \<open>The requests sent to the sensor provider, in order.\<close>

fun requests :: "event list \<Rightarrow> request list" where
  "requests [] = []"
| "requests (Request r # evs) = r # requests evs"
| "requests (e # evs) = requests evs"

text \<open>The mails handed to the transport, in order.\<close>

fun mails :: "event list \<Rightarrow> mail list" where
  "mails [] = []"
| "mails (MailSubmitted m # evs) = m # mails evs"
| "mails (e # evs) = mails evs"

text \<open>The commands for which \<open>deviceToggle\<close> was called, in order.\<close>

fun toggles :: "event list \<Rightarrow> (string \<times> string) list" where
  "toggles [] = []"
| "toggles (DeviceToggle name powerMode # evs) = (name, powerMode) # toggles evs"
| "toggles (e # evs) = toggles evs"

text \<open>The lines written to the log file, in order.\<close>

fun journal :: "event list \<Rightarrow> logline list" where
  "journal [] = []"
| "journal (Journal l # evs) = l # journal evs"
| "journal (e # evs) = journal evs"

text \<open>
  A settings document whose recorded heater state is a confirmed one, relative to the
  settings at the start of the loop and the commands issued: it is the starting document,
  or the starting document with the mode of an issued command that the actuator answered
  with code 0.
\<close>

definition confirmedState ::
  "env \<Rightarrow> (string \<times> string) set \<Rightarrow> settings \<Rightarrow> settings \<Rightarrow> bool" where
  "confirmedState env issued settings doc \<longleftrightarrow>
     doc = settings \<or>
     (doc = settings(''device_SunroomHeater'' \<mapsto> JStr ''powerOff'') \<and>
      (''SunroomHeater'', ''powerOff'') \<in> issued \<and>
      tplink env ''SunroomHeater'' PowerOff = ToggleResponse 0) \<or>
     (doc = settings(''device_SunroomHeater'' \<mapsto> JStr ''powerOn'') \<and>
      (''SunroomHeater'', ''powerOn'') \<in> issued \<and>
      tplink env ''SunroomHeater'' PowerOn = ToggleResponse 0)"

text \<open>The same of the recorded heater state alone, relative to the state stored in the
  settings file at the start of the run.\<close>

definition confirmedRecord ::
  "env \<Rightarrow> (string \<times> string) set \<Rightarrow> jsval option \<Rightarrow> jsval option \<Rightarrow> bool" where
  "confirmedRecord env issued stored recorded \<longleftrightarrow>
     recorded = stored \<or>
     (recorded = Some (JStr ''powerOff'') \<and>
      (''SunroomHeater'', ''powerOff'') \<in> issued \<and>
      tplink env ''SunroomHeater'' PowerOff = ToggleResponse 0) \<or>
     (recorded = Some (JStr ''powerOn'') \<and>
      (''SunroomHeater'', ''powerOn'') \<in> issued \<and>
      tplink env ''SunroomHeater'' PowerOn = ToggleResponse 0)"

text \<open>The events without what depends on the result of a mail: the two prints of the
  transport's callback and the log line after the alert.\<close>

definition withoutMailResult :: "event list \<Rightarrow> event list" where
  "withoutMailResult evs =
     filter (\<lambda>e. e \<noteq> Console MailError \<and> e \<noteq> Console MailSentOk \<and>
                 e \<noteq> Journal LogSunroomProblem) evs"

section \<open>Example inputs\<close>

definition example_settings :: settings where
  "example_settings =
     [''authCode'' \<mapsto> JStr ''c0de'', ''access_token'' \<mapsto> JStr ''t0ken'',
      ''refresh_token'' \<mapsto> JStr ''r3fresh'', ''token_type'' \<mapsto> JStr ''Bearer'']"

definition expired_poll :: poll where
  "expired_poll = \<lparr> status_code = 14, status_message = ''expired'', thermostatList = [] \<rparr>"

definition example_env :: env where
  "example_env =
     \<lparr> settings_file = Some example_settings,
       authorizeGet = Resolved [''ecobeePin'' \<mapsto> JStr ''a1b2'', ''code'' \<mapsto> JStr ''n3wc0de''],
       tokenPost = (\<lambda>g. Resolved [''access_token'' \<mapsto> JStr ''t0ken'']),
       thermostatGet = Resolved expired_poll,
       smtp_error = (\<lambda>m. False),
       tplink = (\<lambda>n r. ToggleResponse 0) \<rparr>"

definition pending_settings :: settings where
  "pending_settings = [''authCode'' \<mapsto> JStr ''c0de'']"

definition refresh_settings :: settings where
  "refresh_settings = [''authCode'' \<mapsto> JStr ''c0de'', ''refresh_token'' \<mapsto> JStr ''r3fresh'']"

definition expired_auth_env :: env where
  "expired_auth_env =
     example_env \<lparr> settings_file := Some pending_settings,
                   tokenPost := (\<lambda>g. Resolved [''error'' \<mapsto> JStr ''authorization_expired'']) \<rparr>"

definition refresh_env :: env where
  "refresh_env = example_env \<lparr> settings_file := Some refresh_settings \<rparr>"

definition first_run_env :: env where
  "first_run_env = example_env \<lparr> settings_file := Some Map.empty \<rparr>"

definition no_response_env :: env where
  "no_response_env = example_env \<lparr> thermostatGet := Rejected None \<rparr>"

definition heater_on :: settings where
  "heater_on = example_settings(''device_SunroomHeater'' \<mapsto> JStr ''powerOn'')"

definition heater_off :: settings where
  "heater_off = example_settings(''device_SunroomHeater'' \<mapsto> JStr ''powerOff'')"

definition sunroom :: "real \<Rightarrow> remoteSensor" where
  "sunroom r = \<lparr> sname = ''Sunroom'', stemp = Num r, occupancy = False \<rparr>"

definition warm_house :: "thermostat list" where
  "warm_house =
     [\<lparr> tname = ''Home'', connected = True,
        remoteSensors = [\<lparr> sname = ''Hall'', stemp = Num 20, occupancy = True \<rparr>, sunroom 13] \<rparr>]"

definition smtp_down_env :: env where
  "smtp_down_env = example_env \<lparr> smtp_error := (\<lambda>m. True) \<rparr>"

definition actuator_down_env :: env where
  "actuator_down_env = example_env \<lparr> tplink := (\<lambda>n r. ToggleResponse 1) \<rparr>"

definition rejected_auth_env :: env where
  "rejected_auth_env =
     example_env \<lparr> settings_file := Some pending_settings,
                   tokenPost := (\<lambda>g. Rejected (Some [''error'' \<mapsto> JStr ''authorization_expired''])) \<rparr>"

definition stored_off :: settings where
  "stored_off = [''authCode'' \<mapsto> JStr ''c0de'', ''device_SunroomHeater'' \<mapsto> JStr ''powerOff'']"

definition dead_band_house :: "thermostat list" where
  "dead_band_house = [\<lparr> tname = ''Home'', connected = True, remoteSensors = [sunroom 11.5] \<rparr>]"

definition merge_env :: env where
  "merge_env =
     \<lparr> settings_file = Some stored_off,
       authorizeGet = Rejected None,
       tokenPost = (\<lambda>g. Resolved [''access_token'' \<mapsto> JStr ''t0ken'',
                                   ''device_SunroomHeater'' \<mapsto> JStr ''powerOn'']),
       thermostatGet = Resolved \<lparr> status_code = 0, status_message = [],
                                  thermostatList = dead_band_house \<rparr>,
       smtp_error = (\<lambda>m. False),
       tplink = (\<lambda>n r. ToggleThrows) \<rparr>"

definition warm_env :: env where
  "warm_env =
     example_env \<lparr> settings_file := Some heater_on,
                   thermostatGet := Resolved \<lparr> status_code = 0, status_message = [],
                                              thermostatList = warm_house \<rparr> \<rparr>"

section \<open>Observations and concatenation\<close>

lemma saved_append [simp]: "saved (xs @ ys) = saved xs @ saved ys"
  by (induction xs rule: saved.induct) simp_all

lemma requests_append [simp]: "requests (xs @ ys) = requests xs @ requests ys"
  by (induction xs rule: requests.induct) simp_all

lemma mails_append [simp]: "mails (xs @ ys) = mails xs @ mails ys"
  by (induction xs rule: mails.induct) simp_all

lemma toggles_append [simp]: "toggles (xs @ ys) = toggles xs @ toggles ys"
  by (induction xs rule: toggles.induct) simp_all

lemma journal_append [simp]: "journal (xs @ ys) = journal xs @ journal ys"
  by (induction xs rule: journal.induct) simp_all

section \<open>The requests of the run up to the sensor loop\<close>

lemma requests_loadSettings: "requests (fst (loadSettings env)) = []"
  by (simp add: loadSettings_def split: option.splits)

lemma requests_mailSend: "requests (fst (mailSend env m)) = []"
  by (simp add: mailSend_def mailSend_callback_def)

lemma requests_addApp:
  "requests (fst (addApp env settings)) =
     (if truthy (settings ''authCode'') then [] else [AuthorizeGet])"
proof -
  obtain mevs ok where m: "mailSend env AppAuthRequired = (mevs, ok)"
    by (cases "mailSend env AppAuthRequired")
  then have "requests mevs = []" using requests_mailSend [of env AppAuthRequired] by simp
  then show ?thesis using m
    by (simp add: addApp_def Let_def split: http.splits)
qed

text \<open>The run goes past the PIN stage exactly when \<open>authCode\<close> is truthy.\<close>

lemma addApp_continues:
  "snd (addApp env settings) = Inr s \<longleftrightarrow> truthy (settings ''authCode'') \<and> s = settings"
  by (auto simp: addApp_def Let_def split: http.splits prod.splits)

lemma requests_updateToken:
  "requests (fst (updateToken env settings)) =
     (if truthy (settings ''access_token'') then [] else [TokenPost (tokenBody settings)])"
  by (simp add: updateToken_def Let_def split: http.splits)

lemma requests_readSensors:
  "requests (fst (readSensors env settings)) =
     [ThermostatGet (settings ''token_type'') (settings ''access_token'')]"
  by (simp add: readSensors_def Let_def split: http.splits option.splits)

lemma requests_main:
  "requests (fst (main env)) =
     (let settings = snd (loadSettings env) in
      if \<not> truthy (settings ''authCode'') then [AuthorizeGet]
      else requests (fst (updateToken env settings)) @
           (case snd (updateToken env settings) of
              Inl h \<Rightarrow> []
            | Inr s \<Rightarrow> [ThermostatGet (s ''token_type'') (s ''access_token'')]))"
proof -
  obtain e0 s0 where l: "loadSettings env = (e0, s0)" by (cases "loadSettings env")
  have r0: "requests e0 = []" using requests_loadSettings [of env] l by simp
  obtain e1 r1 where a: "addApp env s0 = (e1, r1)" by (cases "addApp env s0")
  obtain e2 r2 where u: "updateToken env s0 = (e2, r2)" by (cases "updateToken env s0")
  show ?thesis
  proof (cases "truthy (s0 ''authCode'')")
    case False
    then have "\<forall>s. r1 \<noteq> Inr s" using addApp_continues [of env s0] a by auto
    then obtain h where "r1 = Inl h" by (cases r1) auto
    moreover have "requests e1 = [AuthorizeGet]"
      using requests_addApp [of env s0] a False by simp
    ultimately show ?thesis using l a r0 False
      by (simp add: main_def andThen_def)
  next
    case True
    then have r1: "r1 = Inr s0" using addApp_continues [of env s0 s0] a by simp
    have e1: "requests e1 = []" using requests_addApp [of env s0] a True by simp
    show ?thesis
    proof (cases r2)
      case (Inl h)
      then show ?thesis using l a u r0 r1 e1 True
        by (simp add: main_def andThen_def)
    next
      case (Inr s)
      obtain e3 r3 where p: "readSensors env s = (e3, r3)" by (cases "readSensors env s")
      have "requests e3 = [ThermostatGet (s ''token_type'') (s ''access_token'')]"
        using requests_readSensors [of env s] p by simp
      then show ?thesis using l a u r0 r1 e1 True Inr p
        by (simp add: main_def andThen_def)
    qed
  qed
qed

text \<open>Without a truthy \<open>authCode\<close> the run is the PIN stage, and ends in it.\<close>

lemma main_addApp:
  assumes "\<not> truthy (snd (loadSettings env) ''authCode'')"
  shows "main env =
           (Console Starting # fst (loadSettings env) @ fst (addApp env (snd (loadSettings env))),
            Inl (case snd (addApp env (snd (loadSettings env))) of Inl h \<Rightarrow> h))"
proof -
  obtain e0 s0 where l: "loadSettings env = (e0, s0)" by (cases "loadSettings env")
  obtain e1 r1 where a: "addApp env s0 = (e1, r1)" by (cases "addApp env s0")
  have "\<forall>s. r1 \<noteq> Inr s" using addApp_continues [of env s0] a assms l by auto
  then obtain h where "r1 = Inl h" by (cases r1) auto
  then show ?thesis using l a by (simp add: main_def andThen_def)
qed

text \<open>With a readable settings file that holds an \<open>authCode\<close> and an \<open>access_token\<close>,
  the run goes straight to the poll.\<close>

lemma main_authorized:
  assumes "settings_file env = Some settings"
    and "truthy (settings ''authCode'')" and "truthy (settings ''access_token'')"
  shows "main env =
           (Console Starting # fst (readSensors env settings), snd (readSensors env settings))"
  using assms
  by (simp add: main_def andThen_def loadSettings_def addApp_def updateToken_def
      split: prod.splits)

section \<open>The embedded status code of the poll\<close>

text \<open>
  Claim C2. When the poll's response (resolved, or carried by the rejection) has a
  non-zero embedded status code, the run halts with exit status 1. With code 14 the poll
  stage writes the settings file once, with the settings without \<open>access_token\<close> and
  every other field as it was; with any other non-zero code it writes nothing.
\<close>

theorem expired_code_clears_access_token:
  assumes "thermostatGet env = Resolved data \<or> thermostatGet env = Rejected (Some data)"
    and "status_code data \<noteq> 0"
  shows "snd (readSensors env settings) = Inl (Exit 1) \<and>
         (status_code data = 14 \<longrightarrow>
            saved (fst (readSensors env settings)) = [settings(''access_token'' := None)] \<and>
            (settings(''access_token'' := None)) ''access_token'' = None \<and>
            (\<forall>k. k \<noteq> ''access_token'' \<longrightarrow> (settings(''access_token'' := None)) k = settings k)) \<and>
         (status_code data \<noteq> 14 \<longrightarrow> saved (fst (readSensors env settings)) = [])"
  using assms by (auto simp: readSensors_def Let_def)

theorem expired_code_clears_access_token_witness:
  "snd (readSensors example_env example_settings) = Inl (Exit 1) \<and>
   saved (fst (readSensors example_env example_settings)) =
     [example_settings(''access_token'' := None)]"
  using expired_code_clears_access_token [of example_env expired_poll example_settings]
  by (simp add: example_env_def expired_poll_def)

text \<open>
  Claim C10. When the poll is rejected with an error that carries no response, reading
  the status code dereferences \<open>undefined\<close>: the poll stage ends by an uncaught
  \<open>TypeError\<close>, not by an exit, and writes nothing. A run whose settings file holds an
  \<open>authCode\<close> and an \<open>access_token\<close> ends so.
\<close>

theorem absent_response_crashes:
  assumes "thermostatGet env = Rejected None"
  shows "readSensors env settings =
           ([Request (ThermostatGet (settings ''token_type'') (settings ''access_token'')),
             Console LoadingFailed],
            Inl (Uncaught TypeError)) \<and>
         (settings_file env = Some settings \<and> truthy (settings ''authCode'') \<and>
          truthy (settings ''access_token'') \<longrightarrow>
            snd (main env) = Inl (Uncaught TypeError) \<and> saved (fst (main env)) = [])"
proof -
  have r: "readSensors env settings =
           ([Request (ThermostatGet (settings ''token_type'') (settings ''access_token'')),
             Console LoadingFailed],
            Inl (Uncaught TypeError))"
    using assms by (simp add: readSensors_def)
  show ?thesis
    using r main_authorized [of env settings] by simp
qed

theorem absent_response_crashes_witness:
  "snd (main no_response_env) = Inl (Uncaught TypeError) \<and>
   saved (fst (main no_response_env)) = []"
  using absent_response_crashes [of no_response_env example_settings]
  by (simp add: no_response_env_def example_env_def example_settings_def)

section \<open>The token exchange\<close>

text \<open>
  When the token POST resolves and its answer carries an error, the run writes the
  settings file once and halts with exit status 1. For the error
  \<open>authorization_expired\<close> the written settings are the settings without \<open>authCode\<close>;
  for any other error they are the settings without \<open>access_token\<close>, with \<open>authCode\<close>
  and \<open>refresh_token\<close> as they were.
\<close>

lemma resolved_token_error_clears_credentials:
  assumes "\<not> truthy (settings ''access_token'')"
    and "tokenPost env (tokenBody settings) = Resolved data"
    and "truthy (data ''error'')"
  shows "snd (updateToken env settings) = Inl (Exit 1) \<and>
         (data ''error'' = Some (JStr ''authorization_expired'') \<longrightarrow>
            saved (fst (updateToken env settings)) = [settings(''authCode'' := None)]) \<and>
         (data ''error'' \<noteq> Some (JStr ''authorization_expired'') \<longrightarrow>
            saved (fst (updateToken env settings)) = [settings(''access_token'' := None)] \<and>
            (settings(''access_token'' := None)) ''authCode'' = settings ''authCode'' \<and>
            (settings(''access_token'' := None)) ''refresh_token'' = settings ''refresh_token'')"
  using assms by (simp add: updateToken_def Let_def)

lemma resolved_token_error_example:
  "snd (updateToken expired_auth_env pending_settings) = Inl (Exit 1) \<and>
   saved (fst (updateToken expired_auth_env pending_settings)) =
     [pending_settings(''authCode'' := None)]"
  using resolved_token_error_clears_credentials [of pending_settings expired_auth_env
      "[''error'' \<mapsto> JStr ''authorization_expired'']"]
  by (simp add: expired_auth_env_def example_env_def pending_settings_def)

text \<open>
  Claim C3. The claim asks that a run whose token exchange is answered with the error
  \<open>authorization_expired\<close> clears \<open>authCode\<close>, persists and halts. The token POST of
  line 124 has no handler for a rejected call, unlike the poll of lines 157-171, which
  takes the response out of the error. When the provider sends the error under a status
  for which the call is rejected, the rejection carries the answer, and the run with the
  settings holding the \<open>authCode\<close> alone ends at the POST by an uncaught rejection:
  nothing is written, \<open>authCode\<close> stays, and the exit of line 139 is not reached.
\<close>

theorem rejected_token_error_is_uncaught:
  "main rejected_auth_env =
     ([Console Starting, Console UpdatingAccessToken,
       Request (TokenPost (EcobeePin (Some (JStr ''c0de''))))],
      Inl (Uncaught RequestFailed)) \<and>
   saved (fst (main rejected_auth_env)) = []"
  by (simp add: main_def andThen_def loadSettings_def addApp_def updateToken_def tokenBody_def
      rejected_auth_env_def example_env_def pending_settings_def Let_def)

text \<open>
  Claim C4. Present means truthy, as the code tests it. When the loaded settings hold a
  \<open>refresh_token\<close> and no \<open>access_token\<close>, the run sends no token request with the PIN
  grant, and (when it reaches the token stage, that is with an \<open>authCode\<close>) it sends the
  refresh grant with the refresh token. In every run, a token request with the PIN grant
  is sent only without a \<open>refresh_token\<close>, and carries the stored \<open>authCode\<close>.
\<close>

theorem refresh_grant_precedence:
  "(truthy (snd (loadSettings env) ''refresh_token'') \<and>
    \<not> truthy (snd (loadSettings env) ''access_token'') \<longrightarrow>
      (\<forall>c. TokenPost (EcobeePin c) \<notin> set (requests (fst (main env)))) \<and>
      (truthy (snd (loadSettings env) ''authCode'') \<longrightarrow>
         TokenPost (RefreshToken (snd (loadSettings env) ''refresh_token''))
           \<in> set (requests (fst (main env))))) \<and>
   (\<forall>c. TokenPost (EcobeePin c) \<in> set (requests (fst (main env))) \<longrightarrow>
      \<not> truthy (snd (loadSettings env) ''refresh_token'') \<and>
      c = snd (loadSettings env) ''authCode'')"
  by (auto simp: requests_main requests_updateToken tokenBody_def Let_def
      split: sum.splits if_splits)

theorem refresh_grant_precedence_witness:
  "TokenPost (RefreshToken (Some (JStr ''r3fresh''))) \<in> set (requests (fst (main refresh_env)))"
  using refresh_grant_precedence [of refresh_env]
  by (simp add: refresh_env_def example_env_def refresh_settings_def loadSettings_def)

section \<open>Adding the app\<close>

text \<open>
  Claim C5, as the code has it. When the loaded settings hold no truthy \<open>authCode\<close> and
  the authorize request answers, the run sends that one request, writes the settings with
  the returned code as \<open>authCode\<close> and nothing else changed (the PIN is not stored),
  prints the PIN on the console, hands the transport the one fixed mail (which does not
  carry the PIN), and ends with exit status 1 when the mail was sent, by an uncaught
  rejection when it was not.
\<close>

theorem pin_grant_stores_authCode:
  assumes "\<not> truthy (snd (loadSettings env) ''authCode'')"
    and "authorizeGet env = Resolved data"
  shows "requests (fst (main env)) = [AuthorizeGet] \<and>
         last (saved (fst (main env))) = (snd (loadSettings env))(''authCode'' := data ''code'') \<and>
         Console (UserActionRequired (data ''ecobeePin'')) \<in> set (fst (main env)) \<and>
         mails (fst (main env)) = [AppAuthRequired] \<and>
         snd (main env) =
           Inl (if smtp_error env AppAuthRequired then Uncaught MailRejected else Exit 1)"
proof -
  let ?s = "snd (loadSettings env)"
  have a: "addApp env ?s =
        ([Request AuthorizeGet, Console (UserActionRequired (data ''ecobeePin'')),
          Saved (?s(''authCode'' := data ''code'')), MailSubmitted AppAuthRequired] @
         fst (mailSend_callback env AppAuthRequired),
         Inl (if smtp_error env AppAuthRequired then Uncaught MailRejected else Exit 1))"
    using assms by (simp add: addApp_def mailSend_def mailSend_callback_def Let_def)
  have l: "requests (fst (loadSettings env)) = []" "mails (fst (loadSettings env)) = []"
    by (simp_all add: loadSettings_def split: option.splits)
  have c: "requests (fst (mailSend_callback env AppAuthRequired)) = []"
    "mails (fst (mailSend_callback env AppAuthRequired)) = []"
    "saved (fst (mailSend_callback env AppAuthRequired)) = []"
    by (simp_all add: mailSend_callback_def)
  show ?thesis
    unfolding main_addApp [OF assms(1)] a using l c by simp
qed

theorem pin_grant_stores_authCode_witness:
  "requests (fst (main first_run_env)) = [AuthorizeGet] \<and>
   last (saved (fst (main first_run_env))) = [''authCode'' \<mapsto> JStr ''n3wc0de''] \<and>
   snd (main first_run_env) = Inl (Exit 1)"
  using pin_grant_stores_authCode [of first_run_env
      "[''ecobeePin'' \<mapsto> JStr ''a1b2'', ''code'' \<mapsto> JStr ''n3wc0de'']"]
  by (simp add: first_run_env_def example_env_def loadSettings_def)

text \<open>
  The claim as the specification states it fails on a first run with an empty settings
  file, the PIN \<open>a1b2\<close> and the code \<open>n3wc0de\<close>: the one document written holds the
  \<open>authCode\<close> only, and the one mail is the fixed one; the PIN goes to the console alone.
\<close>

theorem pin_not_stored_nor_mailed:
  "main first_run_env =
     ([Console Starting, Request AuthorizeGet,
       Console (UserActionRequired (Some (JStr ''a1b2''))),
       Saved [''authCode'' \<mapsto> JStr ''n3wc0de''], MailSubmitted AppAuthRequired,
       Console MailSentOk],
      Inl (Exit 1))"
  by (simp add: main_def andThen_def loadSettings_def addApp_def mailSend_def
      mailSend_callback_def first_run_env_def example_env_def Let_def)

section \<open>One resumption of a suspended callback\<close>

lemma saveAndAlert_obs:
  "saved (fst (saveAndAlert settings temp)) = [settings]"
  "toggles (fst (saveAndAlert settings temp)) = []"
  "snd (saveAndAlert settings temp) = None \<or>
   snd (saveAndAlert settings temp) = Some (AwaitMail (SunroomTemperature temp))"
  by (simp_all add: saveAndAlert_def)

lemma resume_settings:
  assumes "resume env settings t = (settings', evs, next)"
  shows "settings' = settings \<or>
         (\<exists>temp. t = AwaitOff temp \<and> tplink env ''SunroomHeater'' PowerOff = ToggleResponse 0 \<and>
            settings' = settings(''device_SunroomHeater'' \<mapsto> JStr ''powerOff'')) \<or>
         (\<exists>temp. t = AwaitOn temp \<and> tplink env ''SunroomHeater'' PowerOn = ToggleResponse 0 \<and>
            settings' = settings(''device_SunroomHeater'' \<mapsto> JStr ''powerOn''))"
proof (cases t)
  case (AwaitOff temp)
  with assms show ?thesis
    by (auto simp: deviceToggle_def Let_def split: toggle_outcome.splits prod.splits if_splits)
next
  case (AwaitOn temp)
  with assms show ?thesis
    by (auto simp: deviceToggle_def Let_def split: toggle_outcome.splits prod.splits if_splits)
next
  case (AwaitMail m)
  with assms show ?thesis by (auto split: prod.splits if_splits)
qed

lemma resume_saved:
  assumes "resume env settings t = (settings', evs, next)"
  shows "set (saved evs) \<subseteq> {settings'}"
proof (cases t)
  case (AwaitOff temp)
  with assms show ?thesis
    using saveAndAlert_obs(1) [of settings' temp]
    by (auto simp: deviceToggle_def Let_def split: toggle_outcome.splits prod.splits if_splits)
next
  case (AwaitOn temp)
  with assms show ?thesis
    using saveAndAlert_obs(1) [of settings' temp]
    by (auto simp: deviceToggle_def Let_def split: toggle_outcome.splits prod.splits if_splits)
next
  case (AwaitMail m)
  with assms show ?thesis
    by (auto simp: mailSend_callback_def split: prod.splits if_splits)
qed

lemma resume_toggles:
  assumes "resume env settings t = (settings', evs, next)"
  shows "toggles evs = []"
proof (cases t)
  case (AwaitOff temp)
  with assms show ?thesis
    using saveAndAlert_obs(2) [of settings' temp]
    by (auto simp: deviceToggle_def Let_def split: toggle_outcome.splits prod.splits if_splits)
next
  case (AwaitOn temp)
  with assms show ?thesis
    using saveAndAlert_obs(2) [of settings' temp]
    by (auto simp: deviceToggle_def Let_def split: toggle_outcome.splits prod.splits if_splits)
next
  case (AwaitMail m)
  with assms show ?thesis
    by (auto simp: mailSend_callback_def split: prod.splits if_splits)
qed

lemma resume_next:
  assumes "resume env settings t = (settings', evs, next)"
  shows "next = None \<or> (\<exists>m. next = Some (AwaitMail m))"
proof (cases t)
  case (AwaitOff temp)
  with assms show ?thesis
    using saveAndAlert_obs(3) [of settings' temp]
    by (auto simp: deviceToggle_def Let_def split: toggle_outcome.splits prod.splits if_splits)
next
  case (AwaitOn temp)
  with assms show ?thesis
    using saveAndAlert_obs(3) [of settings' temp]
    by (auto simp: deviceToggle_def Let_def split: toggle_outcome.splits prod.splits if_splits)
next
  case (AwaitMail m)
  with assms show ?thesis by (auto split: prod.splits if_splits)
qed

lemma runTasks_toggles:
  "runTasks env sched tasks settings = (settings', evs, left) \<Longrightarrow> toggles evs = []"
proof (induction sched arbitrary: tasks settings settings' evs left)
  case Nil
  then show ?case by simp
next
  case (Cons k sched)
  show ?case
  proof (cases "tasks = []")
    case True
    with Cons.prems show ?thesis by simp
  next
    case False
    let ?i = "k mod length tasks"
    obtain s1 e1 n1 where r: "resume env settings (tasks ! ?i) = (s1, e1, n1)"
      by (cases "resume env settings (tasks ! ?i)")
    obtain s2 e2 l2 where
      t: "runTasks env sched (take ?i tasks @ pending n1 @ drop (Suc ?i) tasks) s1 = (s2, e2, l2)"
      by (cases "runTasks env sched (take ?i tasks @ pending n1 @ drop (Suc ?i) tasks) s1")
    from Cons.prems False r t have "evs = e1 @ e2" by (simp add: Let_def)
    moreover have "toggles e1 = []" using resume_toggles [OF r] .
    moreover have "toggles e2 = []" using Cons.IH [OF t] .
    ultimately show ?thesis by simp
  qed
qed

lemma sensorCallback_toggles:
  "toggles (snd (sensorCallback env settings s)) = toggles (fst (sensorStart settings s))"
proof -
  obtain e0 t where a: "sensorStart settings s = (e0, t)" by (cases "sensorStart settings s")
  obtain s1 e1 l1 where b: "runTasks env [0, 0] (pending t) settings = (s1, e1, l1)"
    by (cases "runTasks env [0, 0] (pending t) settings")
  have "toggles e1 = []" using runTasks_toggles [OF b] .
  then show ?thesis using a b by (simp add: sensorCallback_def)
qed

section \<open>The hysteresis rule\<close>

text \<open>
  Claim C1, as the code has it. For a sensor named Sunroom with a numeric reading, the
  callback calls \<open>deviceToggle\<close> once with \<open>powerOff\<close> when the reading is above 12
  and the recorded state is not \<open>powerOff\<close>, and once with \<open>powerOn\<close> when the reading
  is below 11 and the recorded state is not \<open>powerOn\<close>. The comparisons are strict: a
  reading of exactly 11 or 12 gives no command.
\<close>

theorem strict_threshold_commands:
  assumes "sname s = ''Sunroom''" and "stemp s = Num r"
  shows "(12 < r \<and> settings ''device_SunroomHeater'' \<noteq> Some (JStr ''powerOff'') \<longrightarrow>
            toggles (snd (sensorCallback env settings s)) = [(''SunroomHeater'', ''powerOff'')]) \<and>
         (r < 11 \<and> settings ''device_SunroomHeater'' \<noteq> Some (JStr ''powerOn'') \<longrightarrow>
            toggles (snd (sensorCallback env settings s)) = [(''SunroomHeater'', ''powerOn'')]) \<and>
         (r = 11 \<or> r = 12 \<longrightarrow> toggles (snd (sensorCallback env settings s)) = [])"
  using assms
  by (auto simp: sensorCallback_toggles sensorStart_def saveAndAlert_def Let_def)

theorem strict_threshold_commands_witness:
  "toggles (snd (sensorCallback example_env heater_on (sunroom 13))) = [(''SunroomHeater'', ''powerOff'')]"
  using strict_threshold_commands [of "sunroom 13" 13 heater_on example_env]
  by (simp add: sunroom_def heater_on_def)

text \<open>
  The claim as the specification states it fails at the thresholds: with the reading 12
  and the heater recorded on, and with the reading 11 and the heater recorded off, the
  callback logs the reading, saves the unchanged settings and issues no command.
\<close>

theorem threshold_reading_gives_no_command:
  "sensorCallback example_env heater_on (sunroom 12) =
     (heater_on, [Journal (LogSensor ''Sunroom'' (Num 12) False), Saved heater_on]) \<and>
   sensorCallback example_env heater_off (sunroom 11) =
     (heater_off, [Journal (LogSensor ''Sunroom'' (Num 11) False), Saved heater_off])"
  by (simp add: sensorCallback_def sensorStart_def saveAndAlert_def sunroom_def heater_on_def
      heater_off_def Let_def)

text \<open>
  Claim C6. For a sensor named Sunroom whose reading lies strictly between 11 and 12, or
  is at least 12 with the heater recorded off, or at most 11 with the heater recorded on,
  the callback issues no command and leaves the settings as they were; the one document
  it saves is the unchanged settings.
\<close>

theorem matching_state_or_dead_band_is_no_action:
  assumes "sname s = ''Sunroom''" and "stemp s = Num r"
    and "(11 < r \<and> r < 12) \<or>
         (12 \<le> r \<and> settings ''device_SunroomHeater'' = Some (JStr ''powerOff'')) \<or>
         (r \<le> 11 \<and> settings ''device_SunroomHeater'' = Some (JStr ''powerOn''))"
  shows "toggles (snd (sensorCallback env settings s)) = [] \<and>
         fst (sensorCallback env settings s) = settings \<and>
         saved (snd (sensorCallback env settings s)) = [settings]"
  using assms
  by (auto simp: sensorCallback_def sensorStart_def saveAndAlert_def mailSend_callback_def Let_def)

theorem matching_state_or_dead_band_is_no_action_witness:
  "toggles (snd (sensorCallback example_env heater_off (sunroom 11.5))) = [] \<and>
   fst (sensorCallback example_env heater_off (sunroom 11.5)) = heater_off \<and>
   saved (snd (sensorCallback example_env heater_off (sunroom 11.5))) = [heater_off]"
  using matching_state_or_dead_band_is_no_action [of "sunroom 11.5" "11.5" heater_off example_env]
  by (simp add: sunroom_def)

section \<open>The recorded state over the whole loop\<close>

lemma confirmedState_step:
  assumes "confirmedState env issued s0 settings"
    and "resume env settings t = (settings', evs, next)"
    and "\<And>temp. t = AwaitOff temp \<Longrightarrow> (''SunroomHeater'', ''powerOff'') \<in> issued"
    and "\<And>temp. t = AwaitOn temp \<Longrightarrow> (''SunroomHeater'', ''powerOn'') \<in> issued"
  shows "confirmedState env issued s0 settings'"
  using resume_settings [OF assms(2)] assms(1,3,4)
  by (auto simp: confirmedState_def)

lemma runTasks_confirmed:
  assumes "runTasks env sched tasks settings = (settings', evs, left)"
    and "confirmedState env issued s0 settings"
    and "\<And>temp. AwaitOff temp \<in> set tasks \<Longrightarrow> (''SunroomHeater'', ''powerOff'') \<in> issued"
    and "\<And>temp. AwaitOn temp \<in> set tasks \<Longrightarrow> (''SunroomHeater'', ''powerOn'') \<in> issued"
  shows "confirmedState env issued s0 settings' \<and>
         (\<forall>doc \<in> set (saved evs). confirmedState env issued s0 doc)"
  using assms
proof (induction sched arbitrary: tasks settings settings' evs left)
  case Nil
  then show ?case by simp
next
  case (Cons k sched)
  show ?case
  proof (cases "tasks = []")
    case True
    with Cons.prems show ?thesis by simp
  next
    case False
    let ?i = "k mod length tasks"
    let ?t = "tasks ! ?i"
    have i: "?i < length tasks" using False by simp
    then have mem: "?t \<in> set tasks" by simp
    obtain s1 e1 n1 where r: "resume env settings ?t = (s1, e1, n1)"
      by (cases "resume env settings ?t")
    let ?tasks' = "take ?i tasks @ pending n1 @ drop (Suc ?i) tasks"
    obtain s2 e2 l2 where t: "runTasks env sched ?tasks' s1 = (s2, e2, l2)"
      by (cases "runTasks env sched ?tasks' s1")
    from Cons.prems(1) False r t have res: "settings' = s2" "evs = e1 @ e2"
      by (simp_all add: Let_def)
    have c1: "confirmedState env issued s0 s1"
      using confirmedState_step [OF Cons.prems(2) r] Cons.prems(3,4) mem by metis
    have d1: "\<forall>doc \<in> set (saved e1). confirmedState env issued s0 doc"
      using resume_saved [OF r] c1 by auto
    have sub: "\<And>x. x \<in> set ?tasks' \<Longrightarrow> x \<in> set tasks \<or> (\<exists>m. x = AwaitMail m)"
      using resume_next [OF r] by (auto dest: in_set_takeD in_set_dropD)
    have off: "\<And>temp. AwaitOff temp \<in> set ?tasks' \<Longrightarrow> (''SunroomHeater'', ''powerOff'') \<in> issued"
      using sub Cons.prems(3) by blast
    have on: "\<And>temp. AwaitOn temp \<in> set ?tasks' \<Longrightarrow> (''SunroomHeater'', ''powerOn'') \<in> issued"
      using sub Cons.prems(4) by blast
    have "confirmedState env issued s0 s2 \<and> (\<forall>doc \<in> set (saved e2). confirmedState env issued s0 doc)"
      using Cons.IH [OF t c1 off on] .
    then show ?thesis using res d1 by auto
  qed
qed

lemma sensorStart_tasks:
  assumes "sensorStart settings s = (evs, t)"
  shows "(\<forall>temp. t = Some (AwaitOff temp) \<longrightarrow> (''SunroomHeater'', ''powerOff'') \<in> set (toggles evs)) \<and>
         (\<forall>temp. t = Some (AwaitOn temp) \<longrightarrow> (''SunroomHeater'', ''powerOn'') \<in> set (toggles evs)) \<and>
         set (saved evs) \<subseteq> {settings}"
  using assms
  by (auto simp: sensorStart_def saveAndAlert_def Let_def split: if_splits)

lemma startSensors_tasks:
  assumes "startSensors settings ss = (evs, ts)"
  shows "(\<forall>temp. AwaitOff temp \<in> set ts \<longrightarrow> (''SunroomHeater'', ''powerOff'') \<in> set (toggles evs)) \<and>
         (\<forall>temp. AwaitOn temp \<in> set ts \<longrightarrow> (''SunroomHeater'', ''powerOn'') \<in> set (toggles evs)) \<and>
         set (saved evs) \<subseteq> {settings}"
  using assms
proof (induction ss arbitrary: evs ts)
  case Nil
  then show ?case by simp
next
  case (Cons s ss)
  obtain e1 t where a: "sensorStart settings s = (e1, t)" by (cases "sensorStart settings s")
  obtain e2 ts2 where b: "startSensors settings ss = (e2, ts2)" by (cases "startSensors settings ss")
  from Cons.prems a b have res: "evs = e1 @ e2" "ts = pending t @ ts2" by simp_all
  show ?case
    using sensorStart_tasks [OF a] Cons.IH [OF b] res
    by (cases t) auto
qed

lemma thermostatStart_tasks:
  assumes "thermostatStart settings th = (evs, ts)"
  shows "(\<forall>temp. AwaitOff temp \<in> set ts \<longrightarrow> (''SunroomHeater'', ''powerOff'') \<in> set (toggles evs)) \<and>
         (\<forall>temp. AwaitOn temp \<in> set ts \<longrightarrow> (''SunroomHeater'', ''powerOn'') \<in> set (toggles evs)) \<and>
         set (saved evs) \<subseteq> {settings}"
proof (cases "connected th")
  case False
  with assms show ?thesis by (auto simp: thermostatStart_def)
next
  case True
  obtain e ts' where b: "startSensors settings (remoteSensors th) = (e, ts')"
    by (cases "startSensors settings (remoteSensors th)")
  with assms True have "evs = Journal (LogThermostat (tname th)) # e" "ts = ts'"
    by (simp_all add: thermostatStart_def)
  then show ?thesis using startSensors_tasks [OF b] by simp
qed

lemma startThermostats_tasks:
  assumes "startThermostats settings ths = (evs, ts)"
  shows "(\<forall>temp. AwaitOff temp \<in> set ts \<longrightarrow> (''SunroomHeater'', ''powerOff'') \<in> set (toggles evs)) \<and>
         (\<forall>temp. AwaitOn temp \<in> set ts \<longrightarrow> (''SunroomHeater'', ''powerOn'') \<in> set (toggles evs)) \<and>
         set (saved evs) \<subseteq> {settings}"
  using assms
proof (induction ths arbitrary: evs ts)
  case Nil
  then show ?case by simp
next
  case (Cons th ths)
  obtain e1 t1 where a: "thermostatStart settings th = (e1, t1)"
    by (cases "thermostatStart settings th")
  obtain e2 t2 where b: "startThermostats settings ths = (e2, t2)"
    by (cases "startThermostats settings ths")
  from Cons.prems a b have res: "evs = e1 @ e2" "ts = t1 @ t2" by simp_all
  show ?case
    using thermostatStart_tasks [OF a] Cons.IH [OF b] res by auto
qed

lemma confirmedState_mono:
  "confirmedState env A s0 doc \<Longrightarrow> A \<subseteq> B \<Longrightarrow> confirmedState env B s0 doc"
  by (auto simp: confirmedState_def)

text \<open>
  In the sensor loop, under every schedule and at every point of it, the settings and
  every document saved are the starting settings or the starting settings with the
  recorded heater state set to the mode of a command that was issued and that the actuator
  answered with code 0. When the actuator answers no command with code 0, the settings
  stay as they were and every saved document is the starting one.
\<close>

lemma sensorLoop_confirmed:
  assumes "sensorLoop env sched settings thermostats = (settings', evs, left)"
  shows "confirmedState env (set (toggles evs)) settings settings' \<and>
         (\<forall>doc \<in> set (saved evs). confirmedState env (set (toggles evs)) settings doc) \<and>
         ((\<forall>r. tplink env ''SunroomHeater'' r \<noteq> ToggleResponse 0) \<longrightarrow>
            settings' = settings \<and> (\<forall>doc \<in> set (saved evs). doc = settings))"
proof -
  obtain e0 ts where a: "startThermostats settings thermostats = (e0, ts)"
    by (cases "startThermostats settings thermostats")
  obtain s1 e1 l1 where b: "runTasks env sched ts settings = (s1, e1, l1)"
    by (cases "runTasks env sched ts settings")
  from assms a b have res: "settings' = s1" "evs = Journal LogDate # e0 @ e1"
    by (simp_all add: sensorLoop_def)
  note st = startThermostats_tasks [OF a]
  have init: "confirmedState env (set (toggles e0)) settings settings"
    by (simp add: confirmedState_def)
  have run: "confirmedState env (set (toggles e0)) settings s1 \<and>
             (\<forall>doc \<in> set (saved e1). confirmedState env (set (toggles e0)) settings doc)"
    using runTasks_confirmed [OF b init] st by blast
  have sub: "set (toggles e0) \<subseteq> set (toggles evs)" using res by auto
  have fin: "confirmedState env (set (toggles evs)) settings settings'"
    using run res(1) confirmedState_mono [OF _ sub] by blast
  have docs: "\<forall>doc \<in> set (saved evs). confirmedState env (set (toggles evs)) settings doc"
  proof
    fix doc assume "doc \<in> set (saved evs)"
    then have "doc \<in> set (saved e0) \<or> doc \<in> set (saved e1)" using res by auto
    then show "confirmedState env (set (toggles evs)) settings doc"
    proof
      assume "doc \<in> set (saved e0)"
      then have "doc = settings" using st by auto
      then show ?thesis by (simp add: confirmedState_def)
    next
      assume "doc \<in> set (saved e1)"
      then show ?thesis using run confirmedState_mono [OF _ sub] by blast
    qed
  qed
  have fail: "(\<forall>r. tplink env ''SunroomHeater'' r \<noteq> ToggleResponse 0) \<longrightarrow>
              settings' = settings \<and> (\<forall>doc \<in> set (saved evs). doc = settings)"
    using fin docs by (auto simp: confirmedState_def)
  show ?thesis using fin docs fail by blast
qed

section \<open>The recorded state over the whole run\<close>

lemma loadSettings_recorded:
  "\<forall>doc \<in> set (saved (fst (loadSettings env))).
     doc ''device_SunroomHeater'' = snd (loadSettings env) ''device_SunroomHeater''"
  by (simp add: loadSettings_def split: option.splits)

lemma addApp_recorded:
  "\<forall>doc \<in> set (saved (fst (addApp env settings))).
     doc ''device_SunroomHeater'' = settings ''device_SunroomHeater''"
  by (simp add: addApp_def mailSend_def mailSend_callback_def Let_def split: http.splits)

lemma updateToken_recorded:
  assumes "\<forall>data. tokenPost env (tokenBody settings) = Resolved data \<longrightarrow>
             data ''device_SunroomHeater'' = None"
  shows "(\<forall>doc \<in> set (saved (fst (updateToken env settings))).
            doc ''device_SunroomHeater'' = settings ''device_SunroomHeater'') \<and>
         (\<forall>s. snd (updateToken env settings) = Inr s \<longrightarrow>
            s ''device_SunroomHeater'' = settings ''device_SunroomHeater'')"
proof (cases "tokenPost env (tokenBody settings)")
  case (Resolved data)
  then have "data ''device_SunroomHeater'' = None" using assms by simp
  with Resolved show ?thesis
    by (simp add: updateToken_def Let_def map_add_def)
next
  case (Rejected r)
  then show ?thesis by (simp add: updateToken_def Let_def)
qed

lemma readSensors_recorded:
  "(\<forall>doc \<in> set (saved (fst (readSensors env settings))).
      doc ''device_SunroomHeater'' = settings ''device_SunroomHeater'') \<and>
   (\<forall>s ths. snd (readSensors env settings) = Inr (s, ths) \<longrightarrow> s = settings)"
  by (simp add: readSensors_def Let_def split: http.splits option.splits)

text \<open>Up to the sensor loop, no stage but the merge of the token answer writes the
  recorded heater state.\<close>

lemma main_recorded:
  assumes "\<forall>data. tokenPost env (tokenBody (snd (loadSettings env))) = Resolved data \<longrightarrow>
             data ''device_SunroomHeater'' = None"
  shows "(\<forall>doc \<in> set (saved (fst (main env))).
            doc ''device_SunroomHeater'' = snd (loadSettings env) ''device_SunroomHeater'') \<and>
         (\<forall>s ths. snd (main env) = Inr (s, ths) \<longrightarrow>
            s ''device_SunroomHeater'' = snd (loadSettings env) ''device_SunroomHeater'')"
proof -
  obtain e0 s0 where l: "loadSettings env = (e0, s0)" by (cases "loadSettings env")
  obtain e1 r1 where a: "addApp env s0 = (e1, r1)" by (cases "addApp env s0")
  obtain e2 r2 where u: "updateToken env s0 = (e2, r2)" by (cases "updateToken env s0")
  have d0: "\<forall>doc \<in> set (saved e0). doc ''device_SunroomHeater'' = s0 ''device_SunroomHeater''"
    using loadSettings_recorded [of env] l by simp
  have d1: "\<forall>doc \<in> set (saved e1). doc ''device_SunroomHeater'' = s0 ''device_SunroomHeater''"
    using addApp_recorded [of env s0] a by simp
  have tok: "\<forall>data. tokenPost env (tokenBody s0) = Resolved data \<longrightarrow>
               data ''device_SunroomHeater'' = None"
    using assms l by simp
  have d2: "\<forall>doc \<in> set (saved e2). doc ''device_SunroomHeater'' = s0 ''device_SunroomHeater''"
    and k2: "\<forall>s. r2 = Inr s \<longrightarrow> s ''device_SunroomHeater'' = s0 ''device_SunroomHeater''"
    using updateToken_recorded [of env s0, OF tok] u by simp_all
  show ?thesis
  proof (cases r1)
    case (Inl h)
    then show ?thesis using l a d0 d1 by (auto simp: main_def andThen_def)
  next
    case (Inr s1)
    then have s1: "s1 = s0" using addApp_continues [of env s0 s1] a by simp
    show ?thesis
    proof (cases r2)
      case (Inl h)
      then show ?thesis using l a u Inr s1 d0 d1 d2 by (auto simp: main_def andThen_def)
    next
      case r2: (Inr s2)
      obtain e3 r3 where p: "readSensors env s2 = (e3, r3)" by (cases "readSensors env s2")
      have s2: "s2 ''device_SunroomHeater'' = s0 ''device_SunroomHeater''" using k2 r2 by simp
      have d3: "\<forall>doc \<in> set (saved e3). doc ''device_SunroomHeater'' = s0 ''device_SunroomHeater''"
        and k3: "\<forall>s ths. r3 = Inr (s, ths) \<longrightarrow> s = s2"
        using readSensors_recorded [of env s2] p s2 by simp_all
      have m: "main env = (Console Starting # e0 @ e1 @ e2 @ e3, r3)"
        using l a u p Inr s1 r2 by (simp add: main_def andThen_def)
      show ?thesis unfolding m using l d0 d1 d2 d3 k3 s2 by auto
    qed
  qed
qed

lemma confirmedState_recorded:
  assumes "confirmedState env issued settings doc"
  shows "confirmedRecord env issued (settings ''device_SunroomHeater'') (doc ''device_SunroomHeater'')"
  using assms by (auto simp: confirmedState_def confirmedRecord_def)

lemma confirmedRecord_mono:
  "confirmedRecord env A stored r \<Longrightarrow> A \<subseteq> B \<Longrightarrow> confirmedRecord env B stored r"
  by (auto simp: confirmedRecord_def)

text \<open>
  Claim C7, as the code has it. In every run in which the answer to the token POST
  carries no field \<open>device_SunroomHeater\<close>, under every schedule, the heater state
  recorded in every document written to the settings file is the state stored at the
  start of the run or the mode of a command that was issued and that the actuator answered
  with code 0. When the actuator answers no command with code 0, every document written
  records the stored state.
\<close>

theorem recorded_state_is_confirmed_in_run:
  assumes "\<forall>data. tokenPost env (tokenBody (snd (loadSettings env))) = Resolved data \<longrightarrow>
             data ''device_SunroomHeater'' = None"
  shows "(\<forall>doc \<in> set (saved (fst (run env sched))).
            confirmedRecord env (set (toggles (fst (run env sched))))
              (snd (loadSettings env) ''device_SunroomHeater'') (doc ''device_SunroomHeater'')) \<and>
         ((\<forall>r. tplink env ''SunroomHeater'' r \<noteq> ToggleResponse 0) \<longrightarrow>
            (\<forall>doc \<in> set (saved (fst (run env sched))).
               doc ''device_SunroomHeater'' = snd (loadSettings env) ''device_SunroomHeater''))"
proof -
  let ?stored = "snd (loadSettings env) ''device_SunroomHeater''"
  obtain e0 r0 where m: "main env = (e0, r0)" by (cases "main env")
  note mr = main_recorded [of env, OF assms]
  have d0: "\<forall>doc \<in> set (saved e0). doc ''device_SunroomHeater'' = ?stored" using mr m by simp
  have docs: "\<forall>doc \<in> set (saved (fst (run env sched))).
            confirmedRecord env (set (toggles (fst (run env sched)))) ?stored
              (doc ''device_SunroomHeater'')"
  proof (cases r0)
    case (Inl h)
    then have "fst (run env sched) = e0" using m by (simp add: run_def)
    then show ?thesis using d0 by (simp add: confirmedRecord_def)
  next
    case (Inr p)
    obtain s ths where p: "p = (s, ths)" by (cases p)
    obtain s' e1 left where lp: "sensorLoop env sched s ths = (s', e1, left)"
      by (cases "sensorLoop env sched s ths")
    have r: "fst (run env sched) = e0 @ e1" using m Inr p lp by (simp add: run_def)
    have s: "s ''device_SunroomHeater'' = ?stored" using mr m Inr p by simp
    have sub: "set (toggles e1) \<subseteq> set (toggles (e0 @ e1))" by simp
    have d1: "\<forall>doc \<in> set (saved e1).
                confirmedRecord env (set (toggles (e0 @ e1))) ?stored (doc ''device_SunroomHeater'')"
    proof
      fix doc assume "doc \<in> set (saved e1)"
      then have "confirmedState env (set (toggles e1)) s doc"
        using sensorLoop_confirmed [OF lp] by blast
      then have "confirmedRecord env (set (toggles e1)) ?stored (doc ''device_SunroomHeater'')"
        using confirmedState_recorded [of env "set (toggles e1)" s doc] s by simp
      then show "confirmedRecord env (set (toggles (e0 @ e1))) ?stored (doc ''device_SunroomHeater'')"
        using confirmedRecord_mono [OF _ sub] by blast
    qed
    show ?thesis unfolding r using d0 d1 by (auto simp: confirmedRecord_def)
  qed
  then show ?thesis by (auto simp: confirmedRecord_def)
qed

theorem recorded_state_is_confirmed_in_run_witness:
  "saved (fst (run warm_env [0])) = [heater_on(''device_SunroomHeater'' \<mapsto> JStr ''powerOff'')] \<and>
   toggles (fst (run warm_env [0])) = [(''SunroomHeater'', ''powerOff'')] \<and>
   confirmedRecord warm_env {(''SunroomHeater'', ''powerOff'')}
     (Some (JStr ''powerOn'')) (Some (JStr ''powerOff''))"
proof -
  have r: "run warm_env [0] =
     ([Console Starting, Request (ThermostatGet (Some (JStr ''Bearer'')) (Some (JStr ''t0ken''))),
       Journal LogDate, Journal (LogThermostat ''Home''),
       Journal (LogSensor ''Hall'' (Num 20) True),
       Journal (LogSensor ''Sunroom'' (Num 13) False),
       DeviceToggle ''SunroomHeater'' ''powerOff'',
       Journal (LogTurningOff (Num 13)),
       Saved (heater_on(''device_SunroomHeater'' \<mapsto> JStr ''powerOff''))], None)"
    by (simp add: run_def main_def andThen_def loadSettings_def addApp_def updateToken_def
        readSensors_def sensorLoop_def thermostatStart_def sensorStart_def saveAndAlert_def
        deviceToggle_def warm_env_def warm_house_def sunroom_def heater_on_def
        example_settings_def example_env_def Let_def)
  have l: "snd (loadSettings warm_env) ''device_SunroomHeater'' = Some (JStr ''powerOn'')"
    by (simp add: loadSettings_def warm_env_def heater_on_def)
  have t: "\<forall>data. tokenPost warm_env (tokenBody (snd (loadSettings warm_env))) = Resolved data \<longrightarrow>
             data ''device_SunroomHeater'' = None"
    by (auto simp: warm_env_def example_env_def)
  show ?thesis
    using recorded_state_is_confirmed_in_run [of warm_env "[0]", OF t] r l by simp
qed

text \<open>
  The claim as the specification states it fails in a run whose token answer carries the
  field: the merge of lines 143-144 writes it into the settings. With \<open>powerOff\<close>
  stored, a token answer carrying \<open>powerOn\<close>, a Sunroom reading of 11.5 and an actuator
  that confirms nothing, no command is issued and both documents written record
  \<open>powerOn\<close>.
\<close>

theorem token_merge_overwrites_recorded_state:
  "run merge_env [] =
     ([Console Starting, Console UpdatingAccessToken,
       Request (TokenPost (EcobeePin (Some (JStr ''c0de'')))),
       Saved [''authCode'' \<mapsto> JStr ''c0de'', ''device_SunroomHeater'' \<mapsto> JStr ''powerOn'',
              ''access_token'' \<mapsto> JStr ''t0ken''],
       Request (ThermostatGet None (Some (JStr ''t0ken''))),
       Journal LogDate, Journal (LogThermostat ''Home''),
       Journal (LogSensor ''Sunroom'' (Num 11.5) False),
       Saved [''authCode'' \<mapsto> JStr ''c0de'', ''device_SunroomHeater'' \<mapsto> JStr ''powerOn'',
              ''access_token'' \<mapsto> JStr ''t0ken'']],
      None) \<and>
   snd (loadSettings merge_env) ''device_SunroomHeater'' = Some (JStr ''powerOff'')"
  by (simp add: run_def main_def andThen_def loadSettings_def addApp_def updateToken_def
      tokenBody_def readSensors_def sensorLoop_def thermostatStart_def sensorStart_def
      saveAndAlert_def merge_env_def stored_off_def dead_band_house_def sunroom_def Let_def
      map_add_def fun_eq_iff)

section \<open>A failed mail\<close>

lemma withoutMailResult_append [simp]:
  "withoutMailResult (xs @ ys) = withoutMailResult xs @ withoutMailResult ys"
  by (simp add: withoutMailResult_def)

text \<open>A resumption under another mail transport: the same settings and next task, and the
  same events but for the prints of the transport's callback and the line after the mail.\<close>

lemma resume_smtp:
  assumes "resume (env\<lparr>smtp_error := f\<rparr>) settings t = (s2, e2, n2)"
    and "resume env settings t = (s1, e1, n1)"
  shows "s2 = s1 \<and> n2 = n1 \<and> withoutMailResult e2 = withoutMailResult e1"
proof (cases t)
  case (AwaitOff temp)
  with assms show ?thesis by (simp add: deviceToggle_def)
next
  case (AwaitOn temp)
  with assms show ?thesis by (simp add: deviceToggle_def)
next
  case (AwaitMail m)
  with assms show ?thesis
    by (auto simp: mailSend_callback_def withoutMailResult_def split: if_splits)
qed

lemma runTasks_smtp:
  assumes "runTasks (env\<lparr>smtp_error := f\<rparr>) sched tasks settings = (s2, e2, l2)"
    and "runTasks env sched tasks settings = (s1, e1, l1)"
  shows "s2 = s1 \<and> l2 = l1 \<and> withoutMailResult e2 = withoutMailResult e1"
  using assms
proof (induction sched arbitrary: tasks settings s1 e1 l1 s2 e2 l2)
  case Nil
  then show ?case by simp
next
  case (Cons k sched)
  show ?case
  proof (cases "tasks = []")
    case True
    with Cons.prems show ?thesis by simp
  next
    case False
    let ?i = "k mod length tasks"
    let ?t = "tasks ! ?i"
    obtain a1 b1 c1 where r1: "resume env settings ?t = (a1, b1, c1)"
      by (cases "resume env settings ?t")
    obtain a2 b2 c2 where r2: "resume (env\<lparr>smtp_error := f\<rparr>) settings ?t = (a2, b2, c2)"
      by (cases "resume (env\<lparr>smtp_error := f\<rparr>) settings ?t")
    note eq = resume_smtp [OF r2 r1]
    let ?tasks' = "take ?i tasks @ pending c1 @ drop (Suc ?i) tasks"
    obtain x1 y1 z1 where t1: "runTasks env sched ?tasks' a1 = (x1, y1, z1)"
      by (cases "runTasks env sched ?tasks' a1")
    obtain x2 y2 z2 where t2: "runTasks (env\<lparr>smtp_error := f\<rparr>) sched ?tasks' a1 = (x2, y2, z2)"
      by (cases "runTasks (env\<lparr>smtp_error := f\<rparr>) sched ?tasks' a1")
    from Cons.prems(2) False r1 t1 have res1: "s1 = x1" "e1 = b1 @ y1" "l1 = z1"
      by (simp_all add: Let_def)
    from Cons.prems(1) False r2 t2 eq have res2: "s2 = x2" "e2 = b2 @ y2" "l2 = z2"
      by (simp_all add: Let_def)
    show ?thesis using Cons.IH [OF t2 t1] eq res1 res2 by simp
  qed
qed

lemma sensorCallback_smtp:
  "fst (sensorCallback (env\<lparr>smtp_error := f\<rparr>) settings s) = fst (sensorCallback env settings s) \<and>
   withoutMailResult (snd (sensorCallback (env\<lparr>smtp_error := f\<rparr>) settings s)) =
     withoutMailResult (snd (sensorCallback env settings s))"
proof -
  obtain e0 t where a: "sensorStart settings s = (e0, t)" by (cases "sensorStart settings s")
  obtain s1 e1 l1 where b1: "runTasks env [0, 0] (pending t) settings = (s1, e1, l1)"
    by (cases "runTasks env [0, 0] (pending t) settings")
  obtain s2 e2 l2 where
    b2: "runTasks (env\<lparr>smtp_error := f\<rparr>) [0, 0] (pending t) settings = (s2, e2, l2)"
    by (cases "runTasks (env\<lparr>smtp_error := f\<rparr>) [0, 0] (pending t) settings")
  show ?thesis using runTasks_smtp [OF b2 b1] a b1 b2
    by (simp add: sensorCallback_def)
qed

lemma cold_callback:
  assumes "sname s = ''Sunroom''" and "js_lt (stemp s) 5"
    and "settings ''device_SunroomHeater'' = Some (JStr ''powerOn'') \<or>
         (\<exists>c. tplink env ''SunroomHeater'' PowerOn = ToggleResponse c)"
  shows "mails (snd (sensorCallback env settings s)) = [SunroomTemperature (stemp s)] \<and>
         (Console MailError \<in> set (snd (sensorCallback env settings s)) \<longleftrightarrow>
            smtp_error env (SunroomTemperature (stemp s))) \<and>
         (LogSunroomProblem \<in> set (journal (snd (sensorCallback env settings s))) \<longleftrightarrow>
            \<not> smtp_error env (SunroomTemperature (stemp s)))"
proof -
  obtain r where r: "stemp s = Num r" "r < 5" using assms(2) by (cases "stemp s") auto
  show ?thesis
  proof (cases "settings ''device_SunroomHeater'' = Some (JStr ''powerOn'')")
    case True
    with assms(1) r show ?thesis
      by (simp add: sensorCallback_def sensorStart_def saveAndAlert_def mailSend_callback_def Let_def)
  next
    case False
    with assms(3) obtain c where "tplink env ''SunroomHeater'' PowerOn = ToggleResponse c" by auto
    with False assms(1) r show ?thesis
      by (simp add: sensorCallback_def sensorStart_def saveAndAlert_def mailSend_callback_def
          deviceToggle_def Let_def)
  qed
qed

text \<open>
  Claim C8, as the code has it. A failed send is printed on the console and rejects the
  promise of \<open>mailSend\<close>, and what follows the \<open>await\<close> is skipped: after the
  low-temperature alert the log line is written exactly when the send succeeded, and
  after the authorization mail the run exits with status 1 exactly when the send
  succeeded, ending by an uncaught rejection otherwise. Nothing else of a sensor's
  callback depends on the send: with another mail transport the settings it leaves are
  the same, and so are its events but for the prints of the transport's callback and that
  log line.
\<close>

theorem failed_mail_skips_what_follows:
  "(sname s = ''Sunroom'' \<and> js_lt (stemp s) 5 \<and>
    (settings ''device_SunroomHeater'' = Some (JStr ''powerOn'') \<or>
     (\<exists>c. tplink env ''SunroomHeater'' PowerOn = ToggleResponse c)) \<longrightarrow>
      mails (snd (sensorCallback env settings s)) = [SunroomTemperature (stemp s)] \<and>
      (Console MailError \<in> set (snd (sensorCallback env settings s)) \<longleftrightarrow>
         smtp_error env (SunroomTemperature (stemp s))) \<and>
      (LogSunroomProblem \<in> set (journal (snd (sensorCallback env settings s))) \<longleftrightarrow>
         \<not> smtp_error env (SunroomTemperature (stemp s)))) \<and>
   (\<not> truthy (settings ''authCode'') \<and> authorizeGet env = Resolved data \<longrightarrow>
      snd (addApp env settings) =
        Inl (if smtp_error env AppAuthRequired then Uncaught MailRejected else Exit 1)) \<and>
   fst (sensorCallback (env\<lparr>smtp_error := f\<rparr>) settings s) =
     fst (sensorCallback env settings s) \<and>
   withoutMailResult (snd (sensorCallback (env\<lparr>smtp_error := f\<rparr>) settings s)) =
     withoutMailResult (snd (sensorCallback env settings s))"
proof -
  have b: "\<not> truthy (settings ''authCode'') \<and> authorizeGet env = Resolved data \<longrightarrow>
      snd (addApp env settings) =
        Inl (if smtp_error env AppAuthRequired then Uncaught MailRejected else Exit 1)"
    by (simp add: addApp_def mailSend_def mailSend_callback_def Let_def)
  show ?thesis
    using cold_callback [where s = s and env = env and settings = settings] b
      sensorCallback_smtp [where env = env and f = f and settings = settings and s = s]
    by blast
qed

theorem failed_mail_skips_what_follows_witness:
  "LogSunroomProblem \<notin> set (journal (snd (sensorCallback smtp_down_env heater_on (sunroom 4)))) \<and>
   Console MailError \<in> set (snd (sensorCallback smtp_down_env heater_on (sunroom 4))) \<and>
   fst (sensorCallback example_env heater_on (sunroom 4)) =
     fst (sensorCallback smtp_down_env heater_on (sunroom 4))"
proof -
  have e: "smtp_down_env\<lparr>smtp_error := (\<lambda>m. False)\<rparr> = example_env"
    by (simp add: smtp_down_env_def example_env_def)
  have c: "sname (sunroom 4) = ''Sunroom'' \<and> js_lt (stemp (sunroom 4)) 5 \<and>
           heater_on ''device_SunroomHeater'' = Some (JStr ''powerOn'') \<and>
           smtp_error smtp_down_env (SunroomTemperature (stemp (sunroom 4)))"
    by (simp add: sunroom_def heater_on_def smtp_down_env_def)
  show ?thesis
    using failed_mail_skips_what_follows
      [where s = "sunroom 4" and settings = heater_on and env = smtp_down_env
         and f = "\<lambda>m. False"] c e
    by simp
qed

text \<open>
  The claim as the specification states it fails for a Sunroom reading of 4 with the
  heater recorded on: when the send fails, the callback ends after the prints of
  \<open>mailSend\<close> and the log line of line 237 is not written; when the send succeeds, it is.
\<close>

theorem failed_mail_loses_journal_line:
  "sensorCallback smtp_down_env heater_on (sunroom 4) =
     (heater_on,
      [Journal (LogSensor ''Sunroom'' (Num 4) False), Saved heater_on,
       MailSubmitted (SunroomTemperature (Num 4)), Console MailError, Console MailSentOk]) \<and>
   sensorCallback example_env heater_on (sunroom 4) =
     (heater_on,
      [Journal (LogSensor ''Sunroom'' (Num 4) False), Saved heater_on,
       MailSubmitted (SunroomTemperature (Num 4)), Console MailSentOk,
       Journal LogSunroomProblem])"
  by (simp add: sensorCallback_def sensorStart_def saveAndAlert_def mailSend_callback_def
      sunroom_def heater_on_def smtp_down_env_def example_env_def Let_def)

end
